theory Spec2Isabelle
  imports Main "HOL-Library.Word"
begin

unbundle bit_operations_syntax

section \<open>Shared vocabulary\<close>

type_synonym byte = "8 word"

text \<open>
  Go errors are modelled as values. \<open>Error\<close> carries the message of an \<open>error\<close> value
  (wrapping with \<open>fmt.Errorf("...: %w", err)\<close> prepends to the message),
  \<open>SyscallError\<close> is \<open>os.NewSyscallError\<close> of a call name and an errno, and \<open>Panic\<close>
  is a runtime panic.
\<close>

datatype error = Error string | SyscallError string nat | Panic string

fun is_panic :: "error \<Rightarrow> bool" where
  "is_panic (Panic s) = True"
| "is_panic (Error s) = False"
| "is_panic (SyscallError c n) = False"

section \<open>The NetworkManager configurator (internal/dns/nm.go)\<close>

subsection \<open>Constants\<close>

text \<open>The three \<open>int32\<close> priorities of lines 21-25, as 32-bit words read with \<open>sint\<close>.\<close>

definition highestPriority :: "32 word" where
  "highestPriority = push_bit 31 (- 1)"

definition mediumPriority :: "32 word" where
  "mediumPriority = 1"

definition lowerPriority :: "32 word" where
  "lowerPriority = 200"

subsection \<open>Addresses and domain names\<close>

text \<open>
  \<open>netip.Addr\<close> of the standard library: a 128-bit value held as two 64-bit halves and a
  zone tag. \<open>z0\<close> is the zero \<open>Addr\<close>, \<open>z4\<close> marks an IPv4 address (then \<open>hi = 0\<close> and
  \<open>lo = 0xffff00000000 + v4\<close>), \<open>z6noz\<close> an IPv6 address without zone and \<open>z6 name\<close>
  an IPv6 address with a zone.
\<close>

datatype zone = z0 | z4 | z6noz | z6 string

record Addr =
  hi :: "64 word"
  lo :: "64 word"
  z :: zone

definition Is4 :: "Addr \<Rightarrow> bool" where
  "Is4 ip = (z ip = z4)"

definition bePutUint64 :: "64 word \<Rightarrow> byte list" where
  "bePutUint64 v =
     [ucast (drop_bit 56 v), ucast (drop_bit 48 v), ucast (drop_bit 40 v),
      ucast (drop_bit 32 v), ucast (drop_bit 24 v), ucast (drop_bit 16 v),
      ucast (drop_bit 8 v), ucast v]"

definition As16 :: "Addr \<Rightarrow> byte list" where
  "As16 ip = bePutUint64 (hi ip) @ bePutUint64 (lo ip)"

text \<open>
  \<open>endian.Native\<close> is the byte order of the machine the program was built for; it is a
  parameter of the model. \<open>Uint32\<close> reads the first four bytes of a slice; the only
  call site passes \<open>b[12:]\<close> of a \<open>[16]byte\<close>, which always has four.
\<close>

datatype ByteOrder = LittleEndian | BigEndian

fun Uint32 :: "ByteOrder \<Rightarrow> byte list \<Rightarrow> 32 word" where
  "Uint32 LittleEndian b =
     ucast (b ! 0) OR push_bit 8 (ucast (b ! 1)) OR push_bit 16 (ucast (b ! 2))
       OR push_bit 24 (ucast (b ! 3))"
| "Uint32 BigEndian b =
     ucast (b ! 3) OR push_bit 8 (ucast (b ! 2)) OR push_bit 16 (ucast (b ! 1))
       OR push_bit 24 (ucast (b ! 0))"

text \<open>
  \<open>dnsname.FQDN\<close> is a string type whose values are fully-qualified names: every
  value ends in a dot, the root being the single dot. A value is modelled by the
  name in front of that final dot (the root by the empty name), and
  \<open>WithTrailingDot\<close>, the conversion to \<open>string\<close>, gives the name with its dot.
\<close>

datatype FQDN = FQDN string

fun WithTrailingDot :: "FQDN \<Rightarrow> string" where
  "WithTrailingDot (FQDN name) = name @ ''.''"

record OSConfig =
  Nameservers :: "Addr list"
  SearchDomains :: "FQDN list"
  MatchDomains :: "FQDN list"

subsection \<open>Connection settings\<close>

text \<open>
  \<open>nmConnectionSettings\<close> is \<open>map[string]map[string]dbus.Variant\<close>. The variants the
  code writes are listed; everything else NetworkManager returns is \<open>VOpaque\<close>.
\<close>

datatype Variant =
    VUint32s "32 word list"
  | VBytess "byte list list"
  | VStrings "string list"
  | VInt32 "32 word"
  | VString string
  | VBool bool
  | VAddressData "(string \<times> 32 word) list"
  | VOpaque nat

type_synonym nmSection = "string \<rightharpoonup> Variant"
type_synonym nmConnectionSettings = "string \<rightharpoonup> nmSection"

definition property :: "nmConnectionSettings \<Rightarrow> string \<Rightarrow> string \<Rightarrow> Variant option" where
  "property settings sect key = (case settings sect of None \<Rightarrow> None | Some m \<Rightarrow> m key)"

subsection \<open>trySet, lines 125-136: nameservers to wire form\<close>

fun nameservers_loop ::
  "ByteOrder \<Rightarrow> Addr list \<Rightarrow> 32 word list \<times> byte list list \<Rightarrow> 32 word list \<times> byte list list"
where
  "nameservers_loop e [] acc = acc"
| "nameservers_loop e (ip # ips) (dnsv4, dnsv6) =
     (let b = As16 ip in
      if Is4 ip then nameservers_loop e ips (dnsv4 @ [Uint32 e (drop 12 b)], dnsv6)
      else nameservers_loop e ips (dnsv4, dnsv6 @ [b]))"

definition dnsv4_of :: "ByteOrder \<Rightarrow> OSConfig \<Rightarrow> 32 word list" where
  "dnsv4_of e config = fst (nameservers_loop e (Nameservers config) ([], []))"

definition dnsv6_of :: "ByteOrder \<Rightarrow> OSConfig \<Rightarrow> byte list list" where
  "dnsv6_of e config = snd (nameservers_loop e (Nameservers config) ([], []))"

subsection \<open>trySet, lines 159-178: the combined search-domain list\<close>

text \<open>\<open>seen\<close> is a \<open>map[dnsname.FQDN]bool\<close>: a missing key reads as \<open>false\<close>.\<close>

fun searchDomains_loop ::
  "FQDN list \<Rightarrow> (FQDN \<Rightarrow> bool) \<times> string list \<Rightarrow> (FQDN \<Rightarrow> bool) \<times> string list"
where
  "searchDomains_loop [] st = st"
| "searchDomains_loop (d # doms) (seen, search) =
     (if seen d then searchDomains_loop doms (seen, search)
      else searchDomains_loop doms (seen(d := True), search @ [WithTrailingDot d]))"

fun matchDomains_loop ::
  "FQDN list \<Rightarrow> (FQDN \<Rightarrow> bool) \<times> string list \<Rightarrow> (FQDN \<Rightarrow> bool) \<times> string list"
where
  "matchDomains_loop [] st = st"
| "matchDomains_loop (d # doms) (seen, search) =
     (if seen d then matchDomains_loop doms (seen, search)
      else matchDomains_loop doms (seen(d := True), search @ [''~'' @ WithTrailingDot d]))"

definition search_of :: "OSConfig \<Rightarrow> string list" where
  "search_of config =
     (let st = searchDomains_loop (SearchDomains config) (\<lambda>_. False, []);
          st = matchDomains_loop (MatchDomains config) st;
          search = snd st
      in if length (MatchDomains config) = 0 then search @ [''~.''] else search)"

subsection \<open>trySet, lines 187-252: rewriting the settings\<close>

definition dns_priority :: "nat \<Rightarrow> OSConfig \<Rightarrow> 32 word" where
  "dns_priority n config =
     (if n = 0 then lowerPriority
      else if length (MatchDomains config) > 0 then mediumPriority
      else highestPriority)"

definition write_ipv4 :: "ByteOrder \<Rightarrow> OSConfig \<Rightarrow> nmSection \<Rightarrow> nmSection" where
  "write_ipv4 e config ipv4Map =
     (let dnsv4 = dnsv4_of e config;
          m = ipv4Map(''dns'' \<mapsto> VUint32s dnsv4);
          m = m(''dns-search'' \<mapsto> VStrings (search_of config));
          m = m(''dns-priority'' \<mapsto> VInt32 (dns_priority (length dnsv4) config))
      in m)"

definition write_ipv6 ::
  "ByteOrder \<Rightarrow> OSConfig \<Rightarrow> (string \<times> 32 word) list \<Rightarrow> nmSection \<Rightarrow> nmSection"
where
  "write_ipv6 e config addrs6 ipv6Map =
     (let dnsv6 = dnsv6_of e config;
          m = ipv6Map(''method'' \<mapsto> VString ''auto'');
          m = (if length addrs6 > 0 then m(''address-data'' \<mapsto> VAddressData addrs6) else m);
          m = m(''ignore-auto-routes'' \<mapsto> VBool True);
          m = m(''ignore-auto-dns'' \<mapsto> VBool True);
          m = m(''never-default'' \<mapsto> VBool True);
          m = m(''dns'' \<mapsto> VBytess dnsv6);
          m = m(''dns-search'' \<mapsto> VStrings (search_of config));
          m = m(''dns-priority'' \<mapsto> VInt32 (dns_priority (length dnsv6) config))
      in m)"

definition deprecatedProperties :: "string list" where
  "deprecatedProperties = [''addresses'', ''routes'']"

fun delete_all :: "string list \<Rightarrow> nmSection \<Rightarrow> nmSection" where
  "delete_all [] m = m"
| "delete_all (p # ps) m = delete_all ps (m(p := None))"

text \<open>
  \<open>ipv4Map := settings["ipv4"]\<close> is the map stored in \<open>settings\<close>, not a copy, so the
  writes land in \<open>settings\<close>; for a missing section it is a nil map and the first
  write panics.
\<close>

definition rewrite_settings ::
  "ByteOrder \<Rightarrow> OSConfig \<Rightarrow> (string \<times> 32 word) list \<Rightarrow> nmConnectionSettings
     \<Rightarrow> error + nmConnectionSettings"
where
  "rewrite_settings e config addrs6 settings =
     (case settings ''ipv4'' of
        None \<Rightarrow> Inl (Panic ''assignment to entry in nil map'')
      | Some ipv4Map \<Rightarrow>
          (case settings ''ipv6'' of
             None \<Rightarrow> Inl (Panic ''assignment to entry in nil map'')
           | Some ipv6Map \<Rightarrow>
               Inr (settings
                 (''ipv4'' \<mapsto> delete_all deprecatedProperties (write_ipv4 e config ipv4Map),
                  ''ipv6'' \<mapsto> delete_all deprecatedProperties (write_ipv6 e config addrs6 ipv6Map)))))"

subsection \<open>trySet as a whole\<close>

text \<open>
  The collaborators of \<open>trySet\<close>: the system bus, the three D-Bus calls, the live IPv6
  addresses of the interface (lines 141-157 stage them as \<open>address\<close>/\<open>prefix\<close> pairs;
  that list is taken as read from the network stack), and the machine's byte order.
\<close>

record NMEnv =
  SystemBus :: "error option"
  GetDeviceByIpIface :: "string \<Rightarrow> error + string"
  GetAppliedConnection :: "string \<Rightarrow> error + (nmConnectionSettings \<times> 64 word)"
  addrs6 :: "string \<Rightarrow> (string \<times> 32 word) list"
  Reapply :: "string \<Rightarrow> nmConnectionSettings \<Rightarrow> 64 word \<Rightarrow> error option"
  Native :: ByteOrder

fun wrap :: "string \<Rightarrow> error \<Rightarrow> error" where
  "wrap op (Error s) = Error (op @ '': '' @ s)"
| "wrap op (SyscallError c n) = Error (op @ '': '' @ c @ '': errno'')"
| "wrap op (Panic s) = Panic s"

text \<open>
  The result is the returned error (\<open>None\<close> for nil) and the arguments of the
  \<open>Reapply\<close> call when one was made.
\<close>

definition trySet ::
  "NMEnv \<Rightarrow> string \<Rightarrow> OSConfig \<Rightarrow> error option \<times> (nmConnectionSettings \<times> 64 word) option"
where
  "trySet env interfaceName config =
     (case SystemBus env of
        Some err \<Rightarrow> (Some (wrap ''connecting to system bus'' err), None)
      | None \<Rightarrow>
     (case GetDeviceByIpIface env interfaceName of
        Inl err \<Rightarrow> (Some (wrap ''getDeviceByIpIface'' err), None)
      | Inr devicePath \<Rightarrow>
     (case GetAppliedConnection env devicePath of
        Inl err \<Rightarrow> (Some (wrap ''getAppliedConnection'' err), None)
      | Inr (settings, version) \<Rightarrow>
     (case rewrite_settings (Native env) config (addrs6 env interfaceName) settings of
        Inl err \<Rightarrow> (Some err, None)
      | Inr settings' \<Rightarrow>
     (case Reapply env devicePath settings' version of
        Some err \<Rightarrow> (Some (wrap ''reapply'' err), Some (settings', version))
      | None \<Rightarrow> (None, Some (settings', version)))))))"

subsection \<open>SetDNS, lines 49-68: the retry driver\<close>

text \<open>
  Time is a clock in nanoseconds that starts at 0 when the context is created; the
  context's \<open>Err()\<close> is nil while the clock is before the deadline. \<open>envs k\<close> is the
  system as attempt number \<open>k\<close> finds it and \<open>took k\<close> the time that attempt takes.
  \<open>time.Sleep(10 * time.Millisecond)\<close> advances the clock by \<open>10000000\<close>. The loop
  returns the error, the number of attempts made and the clock at return.

  \<open>SetDNS\<close> has no \<open>recover\<close>: a panic inside \<open>trySet\<close> unwinds through the loop at
  once, with no sleep and no further attempt. The result then carries the panic.
\<close>

function SetDNS_loop ::
  "(nat \<Rightarrow> NMEnv) \<Rightarrow> (nat \<Rightarrow> nat) \<Rightarrow> string \<Rightarrow> OSConfig \<Rightarrow> nat \<Rightarrow> nat \<Rightarrow> nat \<Rightarrow> error option
     \<Rightarrow> error option \<times> nat \<times> nat"
where
  "SetDNS_loop envs took interfaceName config deadline k now err =
     (if now < deadline then
        (case fst (trySet (envs k) interfaceName config) of
           None \<Rightarrow> (None, Suc k, now + took k)
         | Some e \<Rightarrow>
             if is_panic e then (Some e, Suc k, now + took k)
             else SetDNS_loop envs took interfaceName config deadline (Suc k)
                    (now + took k + 10000000) (Some e))
      else (err, k, now))"
  by pat_completeness auto
termination
  by (relation "measure (\<lambda>(envs, took, interfaceName, config, deadline, k, now, err). deadline - now)")
     auto

text \<open>\<open>reconfigTimeout\<close> is a constant of the package declared outside this file.\<close>

definition SetDNS ::
  "nat \<Rightarrow> (nat \<Rightarrow> NMEnv) \<Rightarrow> (nat \<Rightarrow> nat) \<Rightarrow> string \<Rightarrow> OSConfig \<Rightarrow> error option \<times> nat \<times> nat"
where
  "SetDNS reconfigTimeout envs took interfaceName config =
     SetDNS_loop envs took interfaceName config reconfigTimeout 0 0 None"

section \<open>Nameserver discovery on Windows (nameservers, adapterAddresses)\<close>

subsection \<open>What the operating system hands over\<close>

text \<open>
  \<open>Sockaddr()\<close> of a raw socket address yields one of the three address kinds or an
  error for an unsupported family. A DNS-server entry is modelled by that result and
  its \<open>Next\<close> pointer, an adapter by its first DNS-server entry and its \<open>Next\<close> pointer.
\<close>

datatype Sockaddr =
    SockaddrInet4 byte byte byte byte
  | SockaddrInet6 "byte list"
  | SockaddrUnix string

datatype IpAdapterDnsServerAdapter =
  IpAdapterDnsServerAdapter (Address_Sockaddr: "error + Sockaddr")
                            (dns_Next: "IpAdapterDnsServerAdapter option")

datatype IpAdapterAddresses =
  IpAdapterAddresses (FirstDnsServerAddress: "IpAdapterDnsServerAdapter option")
                     (aa_Next: "IpAdapterAddresses option")

text \<open>
  One answer of \<open>windows.GetAdaptersAddresses\<close>: the errno (\<open>None\<close> for success), the
  value left in \<open>l\<close>, and the adapter record found at the start of the buffer.
\<close>

datatype Answer =
  Answer (errno: "nat option") (sizeOut: "32 word") (buffer: IpAdapterAddresses)

definition ERROR_BUFFER_OVERFLOW :: nat where
  "ERROR_BUFFER_OVERFLOW = 111"

subsection \<open>adapterAddresses\<close>

fun adapters_from :: "IpAdapterAddresses \<Rightarrow> IpAdapterAddresses list" where
  "adapters_from (IpAdapterAddresses d n) =
     IpAdapterAddresses d n # (case n of None \<Rightarrow> [] | Some aa \<Rightarrow> adapters_from aa)"

text \<open>
  The operating system is a function from the attempt number and the length of the
  buffer supplied to its answer. Next to the result, the loop returns the number of
  calls of \<open>GetAdaptersAddresses\<close> it made. \<open>l\<close> is a \<open>uint32\<close>.
\<close>

function adapterAddresses_loop ::
  "(nat \<Rightarrow> 32 word \<Rightarrow> Answer) \<Rightarrow> nat \<Rightarrow> 32 word \<Rightarrow> (error + IpAdapterAddresses list) \<times> nat"
where
  "adapterAddresses_loop os k l =
     (if errno (os k l) = None then
        (if sizeOut (os k l) = 0 then (Inr [], Suc k)
         else (Inr (adapters_from (buffer (os k l))), Suc k))
      else if errno (os k l) \<noteq> Some ERROR_BUFFER_OVERFLOW then
        (Inl (SyscallError ''getadaptersaddresses'' (the (errno (os k l)))), Suc k)
      else if sizeOut (os k l) \<le> l then
        (Inl (SyscallError ''getadaptersaddresses'' (the (errno (os k l)))), Suc k)
      else adapterAddresses_loop os (Suc k) (sizeOut (os k l)))"
  by pat_completeness auto
termination
proof (relation "measure (\<lambda>(os, k, l). 2 ^ 32 - unat l)")
  show "wf (measure (\<lambda>(os, k, l). 2 ^ 32 - unat (l :: 32 word)))"
    by simp
next
  fix os :: "nat \<Rightarrow> 32 word \<Rightarrow> Answer" and k :: nat and l :: "32 word"
  assume "\<not> sizeOut (os k l) \<le> l"
  then have "unat l < unat (sizeOut (os k l))"
    by (simp add: word_less_nat_alt not_le)
  moreover have "unat (sizeOut (os k l)) < 2 ^ 32"
    using unsigned_less [of "sizeOut (os k l)"] by simp
  ultimately show "((os, Suc k, sizeOut (os k l)), (os, k, l))
      \<in> measure (\<lambda>(os, k, l). 2 ^ 32 - unat l)"
    by simp
qed

definition adapterAddresses ::
  "(nat \<Rightarrow> 32 word \<Rightarrow> Answer) \<Rightarrow> (error + IpAdapterAddresses list) \<times> nat"
where
  "adapterAddresses os = adapterAddresses_loop os 0 15000"

subsection \<open>Formatting an address (net.IP.String, net.JoinHostPort)\<close>

text \<open>
  \<open>net.IPv4\<close> builds the 16-byte IPv4-in-IPv6 form. \<open>String\<close> prints that form in
  dotted decimal and every other 16-byte address in hexadecimal groups, the leftmost
  longest run of two or more zero groups written \<open>::\<close>.
\<close>

definition IPv4 :: "byte \<Rightarrow> byte \<Rightarrow> byte \<Rightarrow> byte \<Rightarrow> byte list" where
  "IPv4 a b c d = [0, 0, 0, 0, 0, 0, 0, 0, 0, 0, 0xff, 0xff, a, b, c, d]"

definition digit_char :: "nat \<Rightarrow> char" where
  "digit_char n = ''0123456789abcdef'' ! n"

definition uitoa_byte :: "nat \<Rightarrow> string" where
  "uitoa_byte n =
     (if n < 10 then [digit_char n]
      else if n < 100 then [digit_char (n div 10), digit_char (n mod 10)]
      else [digit_char (n div 100), digit_char (n div 10 mod 10), digit_char (n mod 10)])"

definition appendHex :: "nat \<Rightarrow> string" where
  "appendHex v =
     (case dropWhile (\<lambda>d. d = 0) [v div 4096 mod 16, v div 256 mod 16, v div 16 mod 16] of
        ds \<Rightarrow> map digit_char (ds @ [v mod 16]))"

fun groups :: "byte list \<Rightarrow> nat list" where
  "groups (a # b # rest) = (unat a * 256 + unat b) # groups rest"
| "groups _ = []"

fun join_colon :: "string list \<Rightarrow> string" where
  "join_colon [] = []"
| "join_colon [x] = x"
| "join_colon (x # y # ys) = x @ '':'' @ join_colon (y # ys)"

definition zero_run :: "nat list \<Rightarrow> nat \<times> nat" where
  "zero_run gs =
     fold (\<lambda>i (zeroStart, zeroEnd).
             let j = i + length (takeWhile (\<lambda>g. g = 0) (drop i gs)) in
             if j - i \<ge> 2 \<and> j - i > zeroEnd - zeroStart then (i, j) else (zeroStart, zeroEnd))
          [0, 1, 2, 3, 4, 5, 6, 7] (255, 255)"

definition is_v4_in_v6 :: "byte list \<Rightarrow> bool" where
  "is_v4_in_v6 ip = (length ip = 16 \<and> take 12 ip = [0, 0, 0, 0, 0, 0, 0, 0, 0, 0, 0xff, 0xff])"

definition IP_String :: "byte list \<Rightarrow> string" where
  "IP_String ip =
     (if is_v4_in_v6 ip then
        uitoa_byte (unat (ip ! 12)) @ ''.'' @ uitoa_byte (unat (ip ! 13)) @ ''.''
          @ uitoa_byte (unat (ip ! 14)) @ ''.'' @ uitoa_byte (unat (ip ! 15))
      else
        (case zero_run (groups ip) of (zeroStart, zeroEnd) \<Rightarrow>
           if zeroStart < 8 then
             join_colon (map appendHex (take zeroStart (groups ip))) @ ''::''
               @ join_colon (map appendHex (drop zeroEnd (groups ip)))
           else join_colon (map appendHex (groups ip))))"

definition JoinHostPort :: "string \<Rightarrow> string \<Rightarrow> string" where
  "JoinHostPort host port =
     (if CHR '':'' \<in> set host then ''['' @ host @ '']:'' @ port else host @ '':'' @ port)"

subsection \<open>nameservers\<close>

text \<open>\<open>copy(ip, sa.Addr[:])\<close> into a fresh 16-byte slice.\<close>

definition copy16 :: "byte list \<Rightarrow> byte list" where
  "copy16 src = take 16 src @ replicate (16 - length src) 0"

fun dns_loop :: "IpAdapterDnsServerAdapter \<Rightarrow> string list \<Rightarrow> string list" where
  "dns_loop (IpAdapterDnsServerAdapter sa next) ns =
     (let ns' =
        (case sa of
           Inl err \<Rightarrow> ns
         | Inr (SockaddrInet4 a b c d) \<Rightarrow> ns @ [JoinHostPort (IP_String (IPv4 a b c d)) ''53'']
         | Inr (SockaddrInet6 addr) \<Rightarrow>
             (let ip = copy16 addr in
              if ip ! 0 = 0xfe \<and> ip ! 1 = 0xc0 then ns
              else ns @ [JoinHostPort (IP_String ip) ''53''])
         | Inr (SockaddrUnix name) \<Rightarrow> ns)
      in case next of None \<Rightarrow> ns' | Some dns \<Rightarrow> dns_loop dns ns')"

fun aas_loop :: "IpAdapterAddresses list \<Rightarrow> string list \<Rightarrow> string list" where
  "aas_loop [] ns = ns"
| "aas_loop (aa # aas) ns =
     aas_loop aas (case FirstDnsServerAddress aa of None \<Rightarrow> ns | Some dns \<Rightarrow> dns_loop dns ns)"

definition nameservers :: "(nat \<Rightarrow> 32 word \<Rightarrow> Answer) \<Rightarrow> string list" where
  "nameservers os =
     (case fst (adapterAddresses os) of
        Inl err \<Rightarrow> []
      | Inr aas \<Rightarrow> aas_loop aas [])"

section \<open>The DoH and DoH3 resolver (dohResolver)\<close>

subsection \<open>Encoding and formatting helpers of the standard library\<close>

definition encodeURL :: string where
  "encodeURL = ''ABCDEFGHIJKLMNOPQRSTUVWXYZabcdefghijklmnopqrstuvwxyz0123456789-_''"

text \<open>\<open>base64.RawURLEncoding.EncodeToString\<close>: the URL-safe alphabet, no padding.\<close>

fun EncodeToString :: "byte list \<Rightarrow> string" where
  "EncodeToString (a # b # c # rest) =
     (let val = unat a * 65536 + unat b * 256 + unat c in
      [encodeURL ! (val div 262144 mod 64), encodeURL ! (val div 4096 mod 64),
       encodeURL ! (val div 64 mod 64), encodeURL ! (val mod 64)] @ EncodeToString rest)"
| "EncodeToString [a, b] =
     (let val = unat a * 65536 + unat b * 256 in
      [encodeURL ! (val div 262144 mod 64), encodeURL ! (val div 4096 mod 64),
       encodeURL ! (val div 64 mod 64)])"
| "EncodeToString [a] =
     (let val = unat a * 65536 in
      [encodeURL ! (val div 262144 mod 64), encodeURL ! (val div 4096 mod 64)])"
| "EncodeToString [] = []"

function uitoa :: "nat \<Rightarrow> string" where
  "uitoa n = (if n < 10 then [digit_char n] else uitoa (n div 10) @ [digit_char (n mod 10)])"
  by pat_completeness auto
termination
  by (relation "measure (\<lambda>n. n)") auto

definition Itoa :: "int \<Rightarrow> string" where
  "Itoa i = (if i < 0 then ''-'' @ uitoa (nat (- i)) else uitoa (nat i))"

definition string_of_bytes :: "byte list \<Rightarrow> string" where
  "string_of_bytes buf = map (\<lambda>b. char_of (unat b)) buf"

subsection \<open>The resolver and its collaborators\<close>

text \<open>
  The two transports are pointers; they are modelled by the identity of the object
  pointed to. \<open>UpstreamConfig\<close> supplies both when the resolver is built.
\<close>

record dohResolver =
  endpoint :: string
  isDoH3 :: bool
  transport :: nat
  http3RoundTripper :: nat

datatype RoundTripper = HttpTransport nat | Http3RoundTripper nat

record Request =
  Method :: string
  URL :: string
  Header :: "string \<rightharpoonup> string"

text \<open>\<open>Body\<close> is what \<open>io.ReadAll(resp.Body)\<close> returns.\<close>

record Response =
  StatusCode :: int
  Body :: "error + byte list"

text \<open>
  The DNS message codec (\<open>Pack\<close>, \<open>Unpack\<close> of the message library), the validation
  done by \<open>http.NewRequestWithContext\<close> and the HTTP exchange \<open>c.Do\<close> are parameters.
  \<open>Unpack\<close> yields the message it filled in and its error.
\<close>

record 'm HTTPEnv =
  Pack :: "'m \<Rightarrow> error + byte list"
  Unpack :: "byte list \<Rightarrow> 'm \<times> error option"
  NewRequest :: "string \<Rightarrow> error option"
  Do :: "RoundTripper \<Rightarrow> Request \<Rightarrow> error + Response"

text \<open>
  What a call of \<open>Resolve\<close> returns and does: the message and the error returned, the
  requests handed to \<open>c.Do\<close> with the transport used, the round-trippers on which
  \<open>Close\<close> was called, and the resolver as the call leaves it.
\<close>

record 'm Resolved =
  msg_out :: "'m option"
  err_out :: "error option"
  requests :: "(RoundTripper \<times> Request) list"
  closes :: "nat list"
  resolver :: dohResolver

definition Resolve :: "'m HTTPEnv \<Rightarrow> dohResolver \<Rightarrow> 'm \<Rightarrow> 'm Resolved" where
  "Resolve env r msg =
     (case Pack env msg of
        Inl err \<Rightarrow>
          \<lparr>msg_out = None, err_out = Some err, requests = [], closes = [], resolver = r\<rparr>
      | Inr data \<Rightarrow>
     (let enc = EncodeToString data;
          url = endpoint r @ ''?dns='' @ enc
      in
     (case NewRequest env url of
        Some err \<Rightarrow>
          \<lparr>msg_out = None, err_out = Some (wrap ''could not create request'' err),
           requests = [], closes = [], resolver = r\<rparr>
      | None \<Rightarrow>
     (let req = \<lparr>Method = ''GET'', URL = url,
                 Header = [''Content-Type'' \<mapsto> ''application/dns-message'',
                           ''Accept'' \<mapsto> ''application/dns-message'']\<rparr>;
          c = (if isDoH3 r then Http3RoundTripper (http3RoundTripper r)
               else HttpTransport (transport r))
      in
     (case Do env c req of
        Inl err \<Rightarrow>
          \<lparr>msg_out = None, err_out = Some (wrap ''could not perform request'' err),
           requests = [(c, req)],
           closes = (if isDoH3 r then [http3RoundTripper r] else []),
           resolver = r\<rparr>
      | Inr resp \<Rightarrow>
     (case Body resp of
        Inl err \<Rightarrow>
          \<lparr>msg_out = None,
           err_out = Some (wrap ''could not read message from response'' err),
           requests = [(c, req)], closes = [], resolver = r\<rparr>
      | Inr buf \<Rightarrow>
          if StatusCode resp \<noteq> 200 then
            \<lparr>msg_out = None,
             err_out = Some (Error (''wrong response from DOH server, got: ''
                         @ string_of_bytes buf @ '', status: '' @ Itoa (StatusCode resp))),
             requests = [(c, req)], closes = [], resolver = r\<rparr>
          else
            \<lparr>msg_out = Some (fst (Unpack env buf)), err_out = snd (Unpack env buf),
             requests = [(c, req)], closes = [], resolver = r\<rparr>))))))"

section \<open>Specification vocabulary\<close>

text \<open>
  The list \<open>xs\<close> with every repetition of an element after its first occurrence
  removed: first-seen wins.
\<close>

fun dedup_first :: "'a list \<Rightarrow> 'a list" where
  "dedup_first [] = []"
| "dedup_first (x # xs) = x # removeAll x (dedup_first xs)"

definition tilde_prefixed :: "string \<Rightarrow> bool" where
  "tilde_prefixed e = (case e of [] \<Rightarrow> False | c # _ \<Rightarrow> c = CHR ''~'')"

text \<open>The little-endian 32-bit word of four bytes.\<close>

definition u32le :: "byte \<Rightarrow> byte \<Rightarrow> byte \<Rightarrow> byte \<Rightarrow> 32 word" where
  "u32le a b c d =
     ucast a OR push_bit 8 (ucast b) OR push_bit 16 (ucast c) OR push_bit 24 (ucast d)"

text \<open>
  The clock at which attempt number \<open>k\<close> of the retry driver starts when every earlier
  attempt failed: each earlier attempt took its time and was followed by one sleep of
  10 milliseconds.
\<close>

fun clock_at :: "(nat \<Rightarrow> nat) \<Rightarrow> nat \<Rightarrow> nat" where
  "clock_at took 0 = 0"
| "clock_at took (Suc k) = clock_at took k + took k + 10000000"

text \<open>The request RFC 8484 prescribes for packed query \<open>data\<close>, and the transport in use.\<close>

definition doh_request :: "dohResolver \<Rightarrow> byte list \<Rightarrow> Request" where
  "doh_request r data =
     \<lparr>Method = ''GET'', URL = endpoint r @ ''?dns='' @ EncodeToString data,
      Header = [''Content-Type'' \<mapsto> ''application/dns-message'',
                ''Accept'' \<mapsto> ''application/dns-message'']\<rparr>"

definition round_tripper_of :: "dohResolver \<Rightarrow> RoundTripper" where
  "round_tripper_of r =
     (if isDoH3 r then Http3RoundTripper (http3RoundTripper r) else HttpTransport (transport r))"

section \<open>Scenarios\<close>

subsection \<open>An interface \<open>eth-test\<close> managed by NetworkManager\<close>

definition ip_10_0_0_1 :: Addr where
  "ip_10_0_0_1 = \<lparr>hi = 0, lo = 0xffff0a000001, z = z4\<rparr>"

definition ip_fd00_1 :: Addr where
  "ip_fd00_1 = \<lparr>hi = 0xfd00000000000000, lo = 1, z = z6noz\<rparr>"

definition settings0 :: nmConnectionSettings where
  "settings0 =
     [''connection'' \<mapsto> [''id'' \<mapsto> VString ''eth-test''],
      ''ipv4'' \<mapsto> [''method'' \<mapsto> VString ''auto'', ''addresses'' \<mapsto> VOpaque 0],
      ''ipv6'' \<mapsto> [''method'' \<mapsto> VString ''ignore'', ''routes'' \<mapsto> VOpaque 1]]"

definition env0 :: NMEnv where
  "env0 =
     \<lparr>SystemBus = None,
      GetDeviceByIpIface =
        (\<lambda>n. if n = ''eth-test'' then Inr ''/org/freedesktop/NetworkManager/Devices/2''
             else Inl (Error ''No device found for the requested iface.'')),
      GetAppliedConnection = (\<lambda>p. Inr (settings0, 7)),
      addrs6 = (\<lambda>n. []),
      Reapply = (\<lambda>p s v. None),
      Native = LittleEndian\<rparr>"

definition env_down :: NMEnv where
  "env_down =
     env0\<lparr>GetDeviceByIpIface := (\<lambda>n. Inl (Error ''No device found for the requested iface.''))\<rparr>"

text \<open>An applied connection that has no \<open>ipv6\<close> section.\<close>

definition env_no_ipv6 :: NMEnv where
  "env_no_ipv6 =
     env0\<lparr>GetAppliedConnection :=
            (\<lambda>p. Inr ([''ipv4'' \<mapsto> [''method'' \<mapsto> VString ''auto'']], 7))\<rparr>"

definition envs_up_at :: "nat \<Rightarrow> nat \<Rightarrow> NMEnv" where
  "envs_up_at n k = (if k < n then env_down else env0)"

definition envs_no_ipv6_at :: "nat \<Rightarrow> nat \<Rightarrow> NMEnv" where
  "envs_no_ipv6_at n k = (if k < n then env_down else env_no_ipv6)"

definition cfg_empty_ns :: OSConfig where
  "cfg_empty_ns =
     \<lparr>Nameservers = [], SearchDomains = [FQDN ''corp.example''],
      MatchDomains = [FQDN ''example'']\<rparr>"

definition cfg_domains :: OSConfig where
  "cfg_domains =
     \<lparr>Nameservers = [ip_10_0_0_1],
      SearchDomains = [FQDN ''a'', FQDN ''b'', FQDN ''a''],
      MatchDomains = [FQDN ''c'', FQDN ''b'', FQDN ''c'']\<rparr>"

definition cfg_search_only :: OSConfig where
  "cfg_search_only =
     \<lparr>Nameservers = [ip_10_0_0_1],
      SearchDomains = [FQDN ''a'', FQDN ''b'', FQDN ''a''], MatchDomains = []\<rparr>"

definition cfg_match_in_search :: OSConfig where
  "cfg_match_in_search =
     \<lparr>Nameservers = [ip_10_0_0_1],
      SearchDomains = [FQDN ''a'', FQDN ''b''], MatchDomains = [FQDN ''b'']\<rparr>"

definition cfg_tilde :: OSConfig where
  "cfg_tilde =
     \<lparr>Nameservers = [ip_10_0_0_1],
      SearchDomains = [FQDN ''~x''], MatchDomains = [FQDN ''~x'']\<rparr>"

definition cfg_v4_only :: OSConfig where
  "cfg_v4_only = \<lparr>Nameservers = [ip_10_0_0_1], SearchDomains = [], MatchDomains = []\<rparr>"

definition cfg_two :: OSConfig where
  "cfg_two = \<lparr>Nameservers = [ip_10_0_0_1, ip_fd00_1], SearchDomains = [], MatchDomains = []\<rparr>"

definition cfg_dup :: OSConfig where
  "cfg_dup =
     \<lparr>Nameservers = [ip_10_0_0_1, ip_fd00_1, ip_10_0_0_1, ip_fd00_1],
      SearchDomains = [], MatchDomains = []\<rparr>"

subsection \<open>Adapter enumeration\<close>




definition os_fec1 :: "nat \<Rightarrow> 32 word \<Rightarrow> Answer" where
  "os_fec1 k l = Answer None 376
     (IpAdapterAddresses
        (Some (IpAdapterDnsServerAdapter
           (Inr (SockaddrInet6 [0xfe, 0xc1, 0, 0, 0, 0, 0, 0, 0, 0, 0, 0, 0, 0, 0, 1])) None))
        None)"

subsection \<open>A DoH server\<close>

text \<open>The query for \<open>www.example.com\<close> of RFC 8484, section 4.1.1.\<close>

definition query_www_example_com :: "byte list" where
  "query_www_example_com =
     [0x00, 0x00, 0x01, 0x00, 0x00, 0x01, 0x00, 0x00, 0x00, 0x00, 0x00, 0x00,
      0x03, 0x77, 0x77, 0x77, 0x07, 0x65, 0x78, 0x61, 0x6d, 0x70, 0x6c, 0x65,
      0x03, 0x63, 0x6f, 0x6d, 0x00, 0x00, 0x01, 0x00, 0x01]"

definition r_doh :: dohResolver where
  "r_doh = \<lparr>endpoint = ''https://dnsserver.example.net/dns-query'', isDoH3 = False,
            transport = 1, http3RoundTripper = 2\<rparr>"

definition r_doh3 :: dohResolver where
  "r_doh3 = \<lparr>endpoint = ''https://dnsserver.example.net/dns-query'', isDoH3 = True,
             transport = 1, http3RoundTripper = 2\<rparr>"

text \<open>
  Messages are their own wire form here. \<open>env_status\<close> answers every request with
  the given status and body, \<open>env_broken\<close> fails every exchange.
\<close>

definition env_status :: "int \<Rightarrow> byte list \<Rightarrow> (byte list) HTTPEnv" where
  "env_status code body =
     \<lparr>Pack = (\<lambda>m. Inr m), Unpack = (\<lambda>b. (b, None)), NewRequest = (\<lambda>u. None),
      Do = (\<lambda>c req. Inr \<lparr>StatusCode = code, Body = Inr body\<rparr>)\<rparr>"

text \<open>
  A codec as the message library behaves on the question name: a name that is not
  fully qualified does not pack. The message is the question name here.
\<close>

definition env_names :: "string HTTPEnv" where
  "env_names =
     \<lparr>Pack = (\<lambda>name. if name \<noteq> [] \<and> last name = CHR ''.'' then Inr (map of_char name)
                     else Inl (Error ''dns: domain must be fully qualified'')),
      Unpack = (\<lambda>b. (string_of_bytes b, None)), NewRequest = (\<lambda>u. None),
      Do = (\<lambda>c req. Inr \<lparr>StatusCode = 200, Body = Inr []\<rparr>)\<rparr>"

definition env_broken :: "(byte list) HTTPEnv" where
  "env_broken =
     \<lparr>Pack = (\<lambda>m. Inr m), Unpack = (\<lambda>b. (b, None)), NewRequest = (\<lambda>u. None),
      Do = (\<lambda>c req. Inl (Error ''timeout: no recent network activity''))\<rparr>"

section \<open>Properties of the NetworkManager configurator\<close>

declare SetDNS_loop.simps [simp del]
declare adapterAddresses_loop.simps [simp del]
declare uitoa.simps [simp del]

subsection \<open>The loops of trySet in closed form\<close>

lemma nameservers_loop_eq:
  "nameservers_loop e ips (a, b) =
     (a @ map (\<lambda>ip. Uint32 e (drop 12 (As16 ip))) (filter Is4 ips),
      b @ map As16 (filter (\<lambda>ip. \<not> Is4 ip) ips))"
  by (induction ips arbitrary: a b) (simp_all add: Let_def)

lemma dnsv4_of_eq:
  "dnsv4_of e config = map (\<lambda>ip. Uint32 e (drop 12 (As16 ip))) (filter Is4 (Nameservers config))"
  by (simp add: dnsv4_of_def nameservers_loop_eq)

lemma dnsv6_of_eq:
  "dnsv6_of e config = map As16 (filter (\<lambda>ip. \<not> Is4 ip) (Nameservers config))"
  by (simp add: dnsv6_of_def nameservers_loop_eq)

lemma filter_removeAll: "filter P (removeAll d xs) = filter (\<lambda>x. P x \<and> x \<noteq> d) xs"
  by (induction xs) auto

lemma set_dedup_first: "set (dedup_first xs) = set xs"
  by (induction xs) auto

lemma searchDomains_loop_eq:
  "searchDomains_loop ds (seen, acc) =
     (\<lambda>x. seen x \<or> x \<in> set ds,
      acc @ map WithTrailingDot (filter (\<lambda>d. \<not> seen d) (dedup_first ds)))"
proof (induction ds arbitrary: seen acc)
  case Nil
  show ?case by simp
next
  case (Cons d ds)
  show ?case
  proof (cases "seen d")
    case True
    have "filter (\<lambda>x. \<not> seen x \<and> x \<noteq> d) (dedup_first ds)
            = filter (\<lambda>x. \<not> seen x) (dedup_first ds)"
      using True by (intro filter_cong) auto
    with True show ?thesis
      by (auto simp: Cons.IH filter_removeAll)
  next
    case False
    have "filter (\<lambda>x. \<not> (seen(d := True)) x) (dedup_first ds)
            = filter (\<lambda>x. \<not> seen x \<and> x \<noteq> d) (dedup_first ds)"
      by (intro filter_cong) auto
    with False show ?thesis
      by (auto simp: Cons.IH filter_removeAll)
  qed
qed

lemma matchDomains_loop_eq:
  "matchDomains_loop ds (seen, acc) =
     (\<lambda>x. seen x \<or> x \<in> set ds,
      acc @ map (\<lambda>d. ''~'' @ WithTrailingDot d) (filter (\<lambda>d. \<not> seen d) (dedup_first ds)))"
proof (induction ds arbitrary: seen acc)
  case Nil
  show ?case by simp
next
  case (Cons d ds)
  show ?case
  proof (cases "seen d")
    case True
    have "filter (\<lambda>x. \<not> seen x \<and> x \<noteq> d) (dedup_first ds)
            = filter (\<lambda>x. \<not> seen x) (dedup_first ds)"
      using True by (intro filter_cong) auto
    with True show ?thesis
      by (auto simp: Cons.IH filter_removeAll)
  next
    case False
    have "filter (\<lambda>x. \<not> (seen(d := True)) x) (dedup_first ds)
            = filter (\<lambda>x. \<not> seen x \<and> x \<noteq> d) (dedup_first ds)"
      by (intro filter_cong) auto
    with False show ?thesis
      by (auto simp: Cons.IH filter_removeAll)
  qed
qed

lemma search_of_eq:
  "search_of config =
     map WithTrailingDot (dedup_first (SearchDomains config))
     @ map (\<lambda>d. ''~'' @ WithTrailingDot d)
         (filter (\<lambda>d. d \<notin> set (SearchDomains config)) (dedup_first (MatchDomains config)))
     @ (if MatchDomains config = [] then [''~.''] else [])"
  by (simp add: search_of_def searchDomains_loop_eq matchDomains_loop_eq Let_def)

subsection \<open>What trySet hands to Reapply\<close>

lemma delete_all_other: "k \<notin> set ps \<Longrightarrow> delete_all ps m k = m k"
  by (induction ps arbitrary: m) auto

lemma trySet_reapplied:
  assumes "snd (trySet env ifn config) = Some (s, v)"
  shows "\<exists>ipv4Map ipv6Map. \<forall>k.
           property s ''ipv4'' k
             = delete_all deprecatedProperties (write_ipv4 (Native env) config ipv4Map) k
         \<and> property s ''ipv6'' k
             = delete_all deprecatedProperties
                 (write_ipv6 (Native env) config (addrs6 env ifn) ipv6Map) k"
proof -
  from assms obtain settings ipv4Map ipv6Map where
    "s = settings
       (''ipv4'' \<mapsto> delete_all deprecatedProperties (write_ipv4 (Native env) config ipv4Map),
        ''ipv6'' \<mapsto> delete_all deprecatedProperties
                    (write_ipv6 (Native env) config (addrs6 env ifn) ipv6Map))"
    by (auto simp: trySet_def rewrite_settings_def
             split: option.splits sum.splits prod.splits)
  then show ?thesis
    by (auto simp: property_def)
qed

lemma ipv4_priority:
  "delete_all deprecatedProperties (write_ipv4 e config m) ''dns-priority''
     = Some (VInt32 (dns_priority (length (dnsv4_of e config)) config))"
  by (simp add: delete_all_other deprecatedProperties_def write_ipv4_def Let_def)

lemma ipv6_priority:
  "delete_all deprecatedProperties (write_ipv6 e config a m) ''dns-priority''
     = Some (VInt32 (dns_priority (length (dnsv6_of e config)) config))"
  by (simp add: delete_all_other deprecatedProperties_def write_ipv6_def Let_def)

lemma ipv4_dns:
  "delete_all deprecatedProperties (write_ipv4 e config m) ''dns''
     = Some (VUint32s (dnsv4_of e config))"
  by (simp add: delete_all_other deprecatedProperties_def write_ipv4_def Let_def)

lemma ipv6_dns:
  "delete_all deprecatedProperties (write_ipv6 e config a m) ''dns''
     = Some (VBytess (dnsv6_of e config))"
  by (simp add: delete_all_other deprecatedProperties_def write_ipv6_def Let_def)

lemma ipv4_search:
  "delete_all deprecatedProperties (write_ipv4 e config m) ''dns-search''
     = Some (VStrings (search_of config))"
  by (simp add: delete_all_other deprecatedProperties_def write_ipv4_def Let_def)

lemma ipv6_search:
  "delete_all deprecatedProperties (write_ipv6 e config a m) ''dns-search''
     = Some (VStrings (search_of config))"
  by (simp add: delete_all_other deprecatedProperties_def write_ipv6_def Let_def)

lemma trySet_search:
  assumes "snd (trySet env ifn config) = Some (s, v)"
  shows "property s ''ipv4'' ''dns-search'' = Some (VStrings (search_of config))"
    and "property s ''ipv6'' ''dns-search'' = Some (VStrings (search_of config))"
proof -
  from trySet_reapplied [OF assms] obtain m4 m6 where
    "\<And>k. property s ''ipv4'' k
            = delete_all deprecatedProperties (write_ipv4 (Native env) config m4) k"
    "\<And>k. property s ''ipv6'' k
            = delete_all deprecatedProperties
                (write_ipv6 (Native env) config (addrs6 env ifn) m6) k"
    by blast
  then show "property s ''ipv4'' ''dns-search'' = Some (VStrings (search_of config))"
    and "property s ''ipv6'' ''dns-search'' = Some (VStrings (search_of config))"
    by (simp_all add: ipv4_search ipv6_search)
qed

lemma WithTrailingDot_last: "WithTrailingDot d \<noteq> [] \<and> last (WithTrailingDot d) = CHR ''.''"
  by (cases d) simp

lemma search_of_trailing_dot:
  "e \<in> set (search_of config) \<Longrightarrow> e \<noteq> [] \<and> last e = CHR ''.''"
  by (auto simp: search_of_eq WithTrailingDot_last split: if_splits)

lemma highestPriority_value: "highestPriority = - 2147483648"
  by (simp add: highestPriority_def push_bit_eq_mult)

subsection \<open>The scenario \<open>eth-test\<close> evaluated\<close>

lemma trySet_env0:
  "snd (trySet env0 ''eth-test'' config) =
     Some (settings0
       (''ipv4'' \<mapsto> delete_all deprecatedProperties (write_ipv4 LittleEndian config
           [''method'' \<mapsto> VString ''auto'', ''addresses'' \<mapsto> VOpaque 0]),
        ''ipv6'' \<mapsto> delete_all deprecatedProperties (write_ipv6 LittleEndian config []
           [''method'' \<mapsto> VString ''ignore'', ''routes'' \<mapsto> VOpaque 1])), 7)"
  by (simp add: trySet_def env0_def rewrite_settings_def settings0_def)

lemma trySet_env0_ok: "fst (trySet env0 ''eth-test'' config) = None"
  by (simp add: trySet_def env0_def rewrite_settings_def settings0_def)

lemma trySet_env_no_ipv6:
  "fst (trySet env_no_ipv6 ''eth-test'' config)
     = Some (Panic ''assignment to entry in nil map'')"
  by (simp add: trySet_def env_no_ipv6_def env0_def rewrite_settings_def)

lemma trySet_env_down:
  "fst (trySet env_down ''eth-test'' config)
     = Some (Error ''getDeviceByIpIface: No device found for the requested iface.'')"
  by (simp add: trySet_def env_down_def env0_def)

lemma As16_10_0_0_1: "As16 ip_10_0_0_1 = [0, 0, 0, 0, 0, 0, 0, 0, 0, 0, 0xff, 0xff, 10, 0, 0, 1]"
  by (simp add: As16_def bePutUint64_def ip_10_0_0_1_def)

lemma As16_fd00_1: "As16 ip_fd00_1 = [0xfd, 0, 0, 0, 0, 0, 0, 0, 0, 0, 0, 0, 0, 0, 0, 1]"
  by (simp add: As16_def bePutUint64_def ip_fd00_1_def)

lemma wire_10_0_0_1: "Uint32 LittleEndian (drop 12 (As16 ip_10_0_0_1)) = 0x0100000A"
  by (simp add: As16_10_0_0_1)

lemma Is4_ips: "Is4 ip_10_0_0_1" "\<not> Is4 ip_fd00_1"
  by (simp_all add: Is4_def ip_10_0_0_1_def ip_fd00_1_def)

subsection \<open>Four bytes and their 32-bit word\<close>

lemma u32le_0: "(ucast (u32le a b c d) :: byte) = a"
  unfolding u32le_def by (rule bit_word_eqI) (auto simp: bit_simps dest: bit_imp_le_length)

lemma u32le_1: "(ucast (drop_bit 8 (u32le a b c d)) :: byte) = b"
  unfolding u32le_def by (rule bit_word_eqI) (auto simp: bit_simps dest: bit_imp_le_length)

lemma u32le_2: "(ucast (drop_bit 16 (u32le a b c d)) :: byte) = c"
  unfolding u32le_def by (rule bit_word_eqI) (auto simp: bit_simps dest: bit_imp_le_length)

lemma u32le_3: "(ucast (drop_bit 24 (u32le a b c d)) :: byte) = d"
  unfolding u32le_def by (rule bit_word_eqI) (auto simp: bit_simps dest: bit_imp_le_length)

lemma u32le_inj:
  "u32le a b c d = u32le a' b' c' d' \<Longrightarrow> a = a' \<and> b = b' \<and> c = c' \<and> d = d'"
  by (metis u32le_0 u32le_1 u32le_2 u32le_3)

lemma length_four: "length b = 4 \<Longrightarrow> \<exists>x0 x1 x2 x3. b = [x0, x1, x2, x3]"
  by (auto simp: numeral_eq_Suc length_Suc_conv)

lemma Uint32_inj:
  assumes "length b = 4" "length b' = 4" "Uint32 e b = Uint32 e b'"
  shows "b = b'"
proof -
  obtain x0 x1 x2 x3 where b: "b = [x0, x1, x2, x3]"
    using length_four [OF assms(1)] by blast
  obtain y0 y1 y2 y3 where b': "b' = [y0, y1, y2, y3]"
    using length_four [OF assms(2)] by blast
  show ?thesis
  proof (cases e)
    case LittleEndian
    then have "u32le x0 x1 x2 x3 = u32le y0 y1 y2 y3"
      using assms(3) by (simp add: b b' u32le_def)
    then show ?thesis using u32le_inj b b' by blast
  next
    case BigEndian
    then have "u32le x3 x2 x1 x0 = u32le y3 y2 y1 y0"
      using assms(3) by (simp add: b b' u32le_def)
    then show ?thesis using u32le_inj b b' by blast
  qed
qed

lemma length_As16: "length (As16 ip) = 16"
  by (simp add: As16_def bePutUint64_def)

lemma distinct_wire4:
  "distinct (map (\<lambda>ip. Uint32 e (drop 12 (As16 ip))) ips)
     = distinct (map (\<lambda>ip. drop 12 (As16 ip)) ips)"
proof -
  have inj: "inj_on (Uint32 e) (set (map (\<lambda>ip. drop 12 (As16 ip)) ips))"
    by (rule inj_onI) (auto simp: length_As16 intro!: Uint32_inj [of _ _ e])
  have "map (\<lambda>ip. Uint32 e (drop 12 (As16 ip))) ips
          = map (Uint32 e) (map (\<lambda>ip. drop 12 (As16 ip)) ips)"
    by simp
  then show ?thesis
    using inj by (simp only: distinct_map) blast
qed

subsection \<open>Claims about the settings written\<close>

text \<open>
  C2, as the code has it. \<open>trySet\<close> does not deduplicate nameservers: the IPv4 list
  handed to Reapply holds the 32-bit form of every IPv4 entry of
  \<open>config.Nameservers\<close>, in order and with repetitions, and the IPv6 list the 16-byte
  form of every other entry. Each list is free of duplicates exactly when no address
  bytes repeat within that family in \<open>config.Nameservers\<close>.
\<close>

theorem nameservers_wire_lists:
  assumes "snd (trySet env ifn config) = Some (s, v)"
  shows "property s ''ipv4'' ''dns'' =
           Some (VUint32s (map (\<lambda>ip. Uint32 (Native env) (drop 12 (As16 ip)))
                             (filter Is4 (Nameservers config))))
       \<and> property s ''ipv6'' ''dns'' =
           Some (VBytess (map As16 (filter (\<lambda>ip. \<not> Is4 ip) (Nameservers config))))
       \<and> (distinct (dnsv4_of (Native env) config)
            \<longleftrightarrow> distinct (map (\<lambda>ip. drop 12 (As16 ip)) (filter Is4 (Nameservers config))))
       \<and> (distinct (dnsv6_of (Native env) config)
            \<longleftrightarrow> distinct (map As16 (filter (\<lambda>ip. \<not> Is4 ip) (Nameservers config))))"
proof -
  from trySet_reapplied [OF assms] obtain m4 m6 where
    "\<And>k. property s ''ipv4'' k
            = delete_all deprecatedProperties (write_ipv4 (Native env) config m4) k"
    "\<And>k. property s ''ipv6'' k
            = delete_all deprecatedProperties
                (write_ipv6 (Native env) config (addrs6 env ifn) m6) k"
    by blast
  then show ?thesis
    by (simp add: ipv4_dns ipv6_dns dnsv4_of_eq dnsv6_of_eq distinct_wire4 del: Uint32.simps)
qed

text \<open>
  Witness for C2 as amended: one IPv4 and one IPv6 nameserver on \<open>eth-test\<close> give one
  entry in each list, and both lists are free of duplicates.
\<close>

theorem nameservers_wire_lists_witness:
  "property (fst (the (snd (trySet env0 ''eth-test'' cfg_two)))) ''ipv4'' ''dns''
     = Some (VUint32s [0x0100000A])
   \<and> property (fst (the (snd (trySet env0 ''eth-test'' cfg_two)))) ''ipv6'' ''dns''
     = Some (VBytess [[0xfd, 0, 0, 0, 0, 0, 0, 0, 0, 0, 0, 0, 0, 0, 0, 1]])
   \<and> distinct (dnsv4_of LittleEndian cfg_two) \<and> distinct (dnsv6_of LittleEndian cfg_two)"
proof -
  obtain s where s: "snd (trySet env0 ''eth-test'' cfg_two) = Some (s, 7)"
    by (simp add: trySet_env0)
  have n: "Native env0 = LittleEndian" by (simp add: env0_def)
  from nameservers_wire_lists [OF s] s show ?thesis
    by (simp add: n cfg_two_def Is4_ips As16_fd00_1 As16_10_0_0_1)
qed

text \<open>
  Counterexample to C2 as stated: with 10.0.0.1 and fd00::1 each listed twice in
  \<open>config.Nameservers\<close>, both emitted lists hold their entry twice.
\<close>

theorem duplicate_nameserver_emitted_twice:
  "property (fst (the (snd (trySet env0 ''eth-test'' cfg_dup)))) ''ipv4'' ''dns''
     = Some (VUint32s [0x0100000A, 0x0100000A])
   \<and> property (fst (the (snd (trySet env0 ''eth-test'' cfg_dup)))) ''ipv6'' ''dns''
     = Some (VBytess [[0xfd, 0, 0, 0, 0, 0, 0, 0, 0, 0, 0, 0, 0, 0, 0, 1],
                      [0xfd, 0, 0, 0, 0, 0, 0, 0, 0, 0, 0, 0, 0, 0, 0, 1]])"
  by (simp add: trySet_env0 property_def ipv4_dns ipv6_dns dnsv4_of_eq dnsv6_of_eq
      cfg_dup_def Is4_ips wire_10_0_0_1 As16_fd00_1 del: Uint32.simps)

text \<open>
  C4, as the code has it. The priority is computed per address family: with empty
  \<open>MatchDomains\<close>, the section of a family that has at least one nameserver gets
  \<open>highestPriority\<close>, the least value an \<open>int32\<close> can hold, and the section of a
  family without nameservers gets \<open>lowerPriority\<close>.
\<close>

theorem priority_highest_per_family:
  assumes "MatchDomains config = []"
      and "snd (trySet env ifn config) = Some (s, v)"
  shows "(property s ''ipv4'' ''dns-priority'' =
            Some (VInt32 (if filter Is4 (Nameservers config) = [] then lowerPriority
                          else highestPriority)))
       \<and> (property s ''ipv6'' ''dns-priority'' =
            Some (VInt32 (if filter (\<lambda>ip. \<not> Is4 ip) (Nameservers config) = []
                          then lowerPriority else highestPriority)))
       \<and> (\<forall>w :: 32 word. sint highestPriority \<le> sint w)"
proof -
  from trySet_reapplied [OF assms(2)] obtain m4 m6 where
    "\<And>k. property s ''ipv4'' k
            = delete_all deprecatedProperties (write_ipv4 (Native env) config m4) k"
    "\<And>k. property s ''ipv6'' k
            = delete_all deprecatedProperties
                (write_ipv6 (Native env) config (addrs6 env ifn) m6) k"
    by blast
  moreover have "sint highestPriority \<le> sint w" for w :: "32 word"
    using sint_ge [of w] by (simp add: highestPriority_value)
  ultimately show ?thesis using assms(1)
    by (simp add: ipv4_priority ipv6_priority dnsv4_of_eq dnsv6_of_eq dns_priority_def)
qed

text \<open>
  Witness for C4 as amended: the single nameserver 10.0.0.1 with no match domains
  gives the IPv4 section the priority -2147483648 and the IPv6 section 200.
\<close>

theorem priority_highest_per_family_witness:
  "MatchDomains cfg_v4_only = []
   \<and> property (fst (the (snd (trySet env0 ''eth-test'' cfg_v4_only)))) ''ipv4'' ''dns-priority''
       = Some (VInt32 (- 2147483648))
   \<and> property (fst (the (snd (trySet env0 ''eth-test'' cfg_v4_only)))) ''ipv6'' ''dns-priority''
       = Some (VInt32 200)"
proof -
  have m: "MatchDomains cfg_v4_only = []" by (simp add: cfg_v4_only_def)
  obtain s where s: "snd (trySet env0 ''eth-test'' cfg_v4_only) = Some (s, 7)"
    by (simp add: trySet_env0)
  have f: "filter Is4 (Nameservers cfg_v4_only) \<noteq> []"
          "filter (\<lambda>ip. \<not> Is4 ip) (Nameservers cfg_v4_only) = []"
    by (simp_all add: cfg_v4_only_def Is4_ips)
  from priority_highest_per_family [OF m s] s m f show ?thesis
    by (simp add: lowerPriority_def highestPriority_value)
qed

text \<open>
  Counterexample to C4 as stated: \<open>Nameservers = [10.0.0.1]\<close> is non-empty and
  \<open>MatchDomains\<close> is empty, yet the IPv6 section gets the priority 200, which is not
  \<open>highestPriority\<close>.
\<close>

theorem ipv6_priority_lower_for_ipv4_only:
  "property (fst (the (snd (trySet env0 ''eth-test'' cfg_v4_only)))) ''ipv6'' ''dns-priority''
     = Some (VInt32 200)
   \<and> (200 :: 32 word) \<noteq> highestPriority"
  by (simp add: trySet_env0 property_def ipv6_priority dnsv6_of_eq dns_priority_def
      cfg_v4_only_def Is4_ips lowerPriority_def highestPriority_value)

text \<open>
  C5. The list that \<open>trySet\<close> puts under \<open>dns-search\<close> in both sections of the
  settings handed to Reapply is: every search domain in order, later repetitions
  dropped, each with its trailing dot; then every match domain in order that is not
  a search domain, later repetitions dropped, each prefixed with \<open>~\<close> and with its
  trailing dot; then the single entry \<open>~.\<close> if and only if \<open>MatchDomains\<close> is
  empty. Every entry ends in a dot.
\<close>

theorem search_list_spec:
  assumes "snd (trySet env ifn config) = Some (s, v)"
  shows "\<exists>search.
           search =
             map WithTrailingDot (dedup_first (SearchDomains config))
             @ map (\<lambda>d. ''~'' @ WithTrailingDot d)
                 (filter (\<lambda>d. d \<notin> set (SearchDomains config))
                    (dedup_first (MatchDomains config)))
             @ (if MatchDomains config = [] then [''~.''] else [])
         \<and> property s ''ipv4'' ''dns-search'' = Some (VStrings search)
         \<and> property s ''ipv6'' ''dns-search'' = Some (VStrings search)
         \<and> (\<forall>e \<in> set search. e \<noteq> [] \<and> last e = CHR ''.'')"
proof -
  have "property s ''ipv4'' ''dns-search'' = Some (VStrings (search_of config))"
    and "property s ''ipv6'' ''dns-search'' = Some (VStrings (search_of config))"
    using trySet_search [OF assms] by simp_all
  moreover have "\<forall>e \<in> set (search_of config). e \<noteq> [] \<and> last e = CHR ''.''"
    using search_of_trailing_dot by blast
  ultimately show ?thesis
    using search_of_eq [of config] by (intro exI [of _ "search_of config"]) simp
qed

text \<open>
  Witness for C5 on \<open>eth-test\<close>: a repeated search domain, a repeated match domain
  and a domain in both lists give \<open>a.\<close>, \<open>b.\<close>, \<open>~c.\<close>; the same search domains
  without match domains give \<open>a.\<close>, \<open>b.\<close>, \<open>~.\<close>.
\<close>

theorem search_list_spec_witness:
  "property (fst (the (snd (trySet env0 ''eth-test'' cfg_domains)))) ''ipv4'' ''dns-search''
     = Some (VStrings [''a.'', ''b.'', ''~c.''])
   \<and> property (fst (the (snd (trySet env0 ''eth-test'' cfg_domains)))) ''ipv6'' ''dns-search''
     = Some (VStrings [''a.'', ''b.'', ''~c.''])
   \<and> property (fst (the (snd (trySet env0 ''eth-test'' cfg_search_only)))) ''ipv4'' ''dns-search''
     = Some (VStrings [''a.'', ''b.'', ''~.''])
   \<and> property (fst (the (snd (trySet env0 ''eth-test'' cfg_search_only)))) ''ipv6'' ''dns-search''
     = Some (VStrings [''a.'', ''b.'', ''~.''])"
proof -
  obtain s where s: "snd (trySet env0 ''eth-test'' cfg_domains) = Some (s, 7)"
    by (simp add: trySet_env0)
  obtain t where t: "snd (trySet env0 ''eth-test'' cfg_search_only) = Some (t, 7)"
    by (simp add: trySet_env0)
  from search_list_spec [OF s] have
    "property s ''ipv4'' ''dns-search'' = Some (VStrings [''a.'', ''b.'', ''~c.''])
     \<and> property s ''ipv6'' ''dns-search'' = Some (VStrings [''a.'', ''b.'', ''~c.''])"
    by (auto simp: cfg_domains_def)
  moreover from search_list_spec [OF t] have
    "property t ''ipv4'' ''dns-search'' = Some (VStrings [''a.'', ''b.'', ''~.''])
     \<and> property t ''ipv6'' ''dns-search'' = Some (VStrings [''a.'', ''b.'', ''~.''])"
    by (auto simp: cfg_search_only_def)
  ultimately show ?thesis using s t by simp
qed

text \<open>
  C8. With no nameservers, both sections handed to Reapply carry \<open>lowerPriority\<close>,
  whatever the search and match domains are; it is the numerically greatest, hence
  least preferred, of the three tiers.
\<close>

theorem empty_nameservers_lower_priority:
  assumes "Nameservers config = []"
      and "snd (trySet env ifn config) = Some (s, v)"
  shows "property s ''ipv4'' ''dns-priority'' = Some (VInt32 lowerPriority)
       \<and> property s ''ipv6'' ''dns-priority'' = Some (VInt32 lowerPriority)
       \<and> sint highestPriority < sint lowerPriority
       \<and> sint mediumPriority < sint lowerPriority"
proof -
  from trySet_reapplied [OF assms(2)] obtain m4 m6 where
    "\<And>k. property s ''ipv4'' k
            = delete_all deprecatedProperties (write_ipv4 (Native env) config m4) k"
    "\<And>k. property s ''ipv6'' k
            = delete_all deprecatedProperties
                (write_ipv6 (Native env) config (addrs6 env ifn) m6) k"
    by blast
  then show ?thesis using assms(1)
    by (simp add: ipv4_priority ipv6_priority dnsv4_of_eq dnsv6_of_eq dns_priority_def
        highestPriority_value mediumPriority_def lowerPriority_def)
qed

text \<open>
  Witness for C8: no nameservers, one search domain and one match domain on
  \<open>eth-test\<close>; both sections get 200.
\<close>

theorem empty_nameservers_lower_priority_witness:
  "Nameservers cfg_empty_ns = []
   \<and> snd (trySet env0 ''eth-test'' cfg_empty_ns) \<noteq> None
   \<and> property (fst (the (snd (trySet env0 ''eth-test'' cfg_empty_ns)))) ''ipv4'' ''dns-priority''
       = Some (VInt32 200)
   \<and> property (fst (the (snd (trySet env0 ''eth-test'' cfg_empty_ns)))) ''ipv6'' ''dns-priority''
       = Some (VInt32 200)"
proof -
  have n: "Nameservers cfg_empty_ns = []" by (simp add: cfg_empty_ns_def)
  obtain s where s: "snd (trySet env0 ''eth-test'' cfg_empty_ns) = Some (s, 7)"
    by (simp add: trySet_env0)
  from empty_nameservers_lower_priority [OF n s] s n show ?thesis
    by (simp add: lowerPriority_def)
qed

text \<open>
  C10, as the code has it. When \<open>MatchDomains\<close> is non-empty and every match domain
  is also a search domain, the list under \<open>dns-search\<close> in both sections of the
  settings handed to Reapply is exactly the search domains in search-domain form,
  later repetitions dropped: no entry comes from a match domain and no \<open>~.\<close> is
  appended. So it holds no entry starting with \<open>~\<close> unless the name of a search
  domain itself starts with \<open>~\<close>.
\<close>

theorem match_within_search_no_routing_entry:
  assumes "MatchDomains config \<noteq> []"
      and "set (MatchDomains config) \<subseteq> set (SearchDomains config)"
      and "snd (trySet env ifn config) = Some (s, v)"
  shows "property s ''ipv4'' ''dns-search''
           = Some (VStrings (map WithTrailingDot (dedup_first (SearchDomains config))))
       \<and> property s ''ipv6'' ''dns-search''
           = Some (VStrings (map WithTrailingDot (dedup_first (SearchDomains config))))
       \<and> ((\<forall>d \<in> set (SearchDomains config). \<not> tilde_prefixed (WithTrailingDot d))
            \<longrightarrow> (\<forall>e \<in> set (map WithTrailingDot (dedup_first (SearchDomains config))).
                   \<not> tilde_prefixed e))"
proof -
  have "filter (\<lambda>d. d \<notin> set (SearchDomains config)) (dedup_first (MatchDomains config)) = []"
    using assms(2) by (auto simp: filter_empty_conv set_dedup_first)
  then have "search_of config = map WithTrailingDot (dedup_first (SearchDomains config))"
    using assms(1) by (simp add: search_of_eq)
  then show ?thesis
    using trySet_search [OF assms(3)] by (auto simp: set_dedup_first)
qed

text \<open>
  Witness for C10 as amended, on \<open>eth-test\<close>: search domains \<open>a.\<close> and \<open>b.\<close>,
  match domain \<open>b.\<close>; both sections get \<open>a.\<close>, \<open>b.\<close> and nothing else.
\<close>

theorem match_within_search_no_routing_entry_witness:
  "property (fst (the (snd (trySet env0 ''eth-test'' cfg_match_in_search))))
     ''ipv4'' ''dns-search'' = Some (VStrings [''a.'', ''b.''])
   \<and> property (fst (the (snd (trySet env0 ''eth-test'' cfg_match_in_search))))
     ''ipv6'' ''dns-search'' = Some (VStrings [''a.'', ''b.''])
   \<and> \<not> tilde_prefixed ''a.'' \<and> \<not> tilde_prefixed ''b.''"
proof -
  have a: "MatchDomains cfg_match_in_search \<noteq> []"
    by (simp add: cfg_match_in_search_def)
  have b: "set (MatchDomains cfg_match_in_search) \<subseteq> set (SearchDomains cfg_match_in_search)"
    by (simp add: cfg_match_in_search_def)
  obtain s where s: "snd (trySet env0 ''eth-test'' cfg_match_in_search) = Some (s, 7)"
    by (simp add: trySet_env0)
  from match_within_search_no_routing_entry [OF a b s] s show ?thesis
    by (simp add: cfg_match_in_search_def tilde_prefixed_def)
qed

text \<open>
  Counterexample to C10 as stated: the name \<open>~x.\<close> is both the only search domain
  and the only match domain; the list under \<open>dns-search\<close> in both sections is the
  single entry \<open>~x.\<close>, which starts with \<open>~\<close>.
\<close>

theorem tilde_search_domain_emitted:
  "property (fst (the (snd (trySet env0 ''eth-test'' cfg_tilde)))) ''ipv4'' ''dns-search''
     = Some (VStrings [''~x.''])
   \<and> property (fst (the (snd (trySet env0 ''eth-test'' cfg_tilde)))) ''ipv6'' ''dns-search''
     = Some (VStrings [''~x.''])
   \<and> tilde_prefixed ''~x.''"
  by (simp add: trySet_env0 property_def ipv4_search ipv6_search search_of_def
      cfg_tilde_def tilde_prefixed_def)

section \<open>Properties of the retry driver\<close>

lemma clock_at_mono: "i \<le> j \<Longrightarrow> clock_at took i \<le> clock_at took j"
  by (induction j) (auto simp: le_Suc_eq)

lemma SetDNS_loop_failures:
  assumes "k \<le> n"
      and "\<And>j. k \<le> j \<Longrightarrow> j < n \<Longrightarrow>
             \<exists>e. fst (trySet (envs j) ifn config) = Some e \<and> \<not> is_panic e"
      and "\<And>j. k \<le> j \<Longrightarrow> j < n \<Longrightarrow> clock_at took j < deadline"
  shows "SetDNS_loop envs took ifn config deadline k (clock_at took k) err =
         SetDNS_loop envs took ifn config deadline n (clock_at took n)
           (if n = k then err else fst (trySet (envs (n - 1)) ifn config))"
  using assms
proof (induction n rule: dec_induct)
  case base
  show ?case by simp
next
  case (step n)
  have IH: "SetDNS_loop envs took ifn config deadline k (clock_at took k) err =
         SetDNS_loop envs took ifn config deadline n (clock_at took n)
           (if n = k then err else fst (trySet (envs (n - 1)) ifn config))"
    using step by simp
  obtain e where e: "fst (trySet (envs n) ifn config) = Some e" "\<not> is_panic e"
    using step.prems(1) [of n] step.hyps by auto
  have c: "clock_at took n < deadline"
    using step.prems(2) [of n] step.hyps by simp
  have "SetDNS_loop envs took ifn config deadline n (clock_at took n)
           (if n = k then err else fst (trySet (envs (n - 1)) ifn config))
        = SetDNS_loop envs took ifn config deadline (Suc n) (clock_at took (Suc n)) (Some e)"
    by (subst SetDNS_loop.simps) (simp add: e c)
  with IH e step.hyps show ?case by simp
qed

lemma SetDNS_after_failures:
  assumes "\<forall>j<k. \<exists>e. fst (trySet (envs j) ifn config) = Some e \<and> \<not> is_panic e"
      and "\<And>j. j < k \<Longrightarrow> clock_at took j < reconfigTimeout"
  shows "SetDNS reconfigTimeout envs took ifn config =
         SetDNS_loop envs took ifn config reconfigTimeout k (clock_at took k)
           (if k = 0 then None else fst (trySet (envs (k - 1)) ifn config))"
proof -
  have "SetDNS_loop envs took ifn config reconfigTimeout 0 (clock_at took 0) None =
        SetDNS_loop envs took ifn config reconfigTimeout k (clock_at took k)
          (if k = 0 then None else fst (trySet (envs (k - 1)) ifn config))"
  proof (rule SetDNS_loop_failures)
    show "0 \<le> k" by simp
    show "\<exists>e. fst (trySet (envs j) ifn config) = Some e \<and> \<not> is_panic e" if "j < k" for j
      using assms(1) that by simp
    show "clock_at took j < reconfigTimeout" if "j < k" for j
      using assms(2) that by simp
  qed
  then show ?thesis by (simp add: SetDNS_def)
qed

text \<open>
  C9. An attempt succeeds (\<open>trySet\<close> returns nil) or fails (\<open>trySet\<close> returns an
  error). Let the first \<open>k\<close> attempts fail. If attempt \<open>k\<close> starts before the
  deadline and succeeds, \<open>SetDNS\<close> returns nil after exactly \<open>k + 1\<close> attempts, at
  the moment that attempt ends: every failed attempt was followed by one sleep of
  10 ms and the successful one by none. If instead the deadline passes between the
  start of attempt \<open>k - 1\<close> and the end of the sleep after it, \<open>SetDNS\<close> returns the
  error of attempt \<open>k - 1\<close>, the last one made, after exactly \<open>k\<close> attempts.

  An attempt that panics does neither: if attempt \<open>k\<close> starts before the deadline and
  panics, the panic leaves \<open>SetDNS\<close> when that attempt ends, with no sleep and no
  retry.
\<close>

theorem SetDNS_retry:
  assumes "\<forall>j<k. \<exists>e. fst (trySet (envs j) ifn config) = Some e \<and> \<not> is_panic e"
  shows "(fst (trySet (envs k) ifn config) = None \<and> clock_at took k < reconfigTimeout
            \<longrightarrow> SetDNS reconfigTimeout envs took ifn config
                  = (None, Suc k, clock_at took k + took k))
       \<and> (0 < k \<and> clock_at took (k - 1) < reconfigTimeout \<and> reconfigTimeout \<le> clock_at took k
            \<longrightarrow> SetDNS reconfigTimeout envs took ifn config
                  = (fst (trySet (envs (k - 1)) ifn config), k, clock_at took k))
       \<and> (\<forall>p. fst (trySet (envs k) ifn config) = Some (Panic p)
                \<and> clock_at took k < reconfigTimeout
            \<longrightarrow> SetDNS reconfigTimeout envs took ifn config
                  = (Some (Panic p), Suc k, clock_at took k + took k))"
proof (intro conjI impI allI)
  assume a: "fst (trySet (envs k) ifn config) = None \<and> clock_at took k < reconfigTimeout"
  have "SetDNS reconfigTimeout envs took ifn config =
        SetDNS_loop envs took ifn config reconfigTimeout k (clock_at took k)
          (if k = 0 then None else fst (trySet (envs (k - 1)) ifn config))"
  proof (rule SetDNS_after_failures [OF assms])
    show "clock_at took j < reconfigTimeout" if "j < k" for j
      using clock_at_mono [of j k took] that a by simp
  qed
  also have "\<dots> = (None, Suc k, clock_at took k + took k)"
    by (subst SetDNS_loop.simps) (simp add: a)
  finally show "SetDNS reconfigTimeout envs took ifn config
      = (None, Suc k, clock_at took k + took k)" .
next
  assume b: "0 < k \<and> clock_at took (k - 1) < reconfigTimeout
             \<and> reconfigTimeout \<le> clock_at took k"
  have "SetDNS reconfigTimeout envs took ifn config =
        SetDNS_loop envs took ifn config reconfigTimeout k (clock_at took k)
          (if k = 0 then None else fst (trySet (envs (k - 1)) ifn config))"
  proof (rule SetDNS_after_failures [OF assms])
    show "clock_at took j < reconfigTimeout" if "j < k" for j
    proof -
      have "j \<le> k - 1" using that by simp
      then have "clock_at took j \<le> clock_at took (k - 1)" by (rule clock_at_mono)
      with b show ?thesis by simp
    qed
  qed
  also have "\<dots> = (fst (trySet (envs (k - 1)) ifn config), k, clock_at took k)"
    using b by (subst SetDNS_loop.simps) simp
  finally show "SetDNS reconfigTimeout envs took ifn config
      = (fst (trySet (envs (k - 1)) ifn config), k, clock_at took k)" .
next
  fix p
  assume c: "fst (trySet (envs k) ifn config) = Some (Panic p)
             \<and> clock_at took k < reconfigTimeout"
  have "SetDNS reconfigTimeout envs took ifn config =
        SetDNS_loop envs took ifn config reconfigTimeout k (clock_at took k)
          (if k = 0 then None else fst (trySet (envs (k - 1)) ifn config))"
  proof (rule SetDNS_after_failures [OF assms])
    show "clock_at took j < reconfigTimeout" if "j < k" for j
      using clock_at_mono [of j k took] that c by simp
  qed
  also have "\<dots> = (Some (Panic p), Suc k, clock_at took k + took k)"
    by (subst SetDNS_loop.simps) (simp add: c)
  finally show "SetDNS reconfigTimeout envs took ifn config
      = (Some (Panic p), Suc k, clock_at took k + took k)" .
qed

text \<open>
  Witness for C9, each attempt taking 1 ms. With a timeout of one second and the
  interface ready from the third attempt on, \<open>SetDNS\<close> returns nil after 3 attempts
  at 23 ms. With a timeout of 25 ms and the interface never ready, it returns the
  error of the third attempt at 33 ms. With the interface not ready at the first
  attempt and an applied connection that lacks the \<open>ipv6\<close> section at the second,
  the second attempt panics and the panic leaves \<open>SetDNS\<close> at 12 ms.
\<close>

theorem SetDNS_retry_witness:
  "SetDNS 1000000000 (envs_up_at 2) (\<lambda>k. 1000000) ''eth-test'' cfg_v4_only
     = (None, 3, 23000000)
   \<and> SetDNS 25000000 (\<lambda>k. env_down) (\<lambda>k. 1000000) ''eth-test'' cfg_v4_only
       = (Some (Error ''getDeviceByIpIface: No device found for the requested iface.''),
          3, 33000000)
   \<and> SetDNS 1000000000 (envs_no_ipv6_at 1) (\<lambda>k. 1000000) ''eth-test'' cfg_v4_only
       = (Some (Panic ''assignment to entry in nil map''), 2, 12000000)"
proof -
  have c2: "clock_at (\<lambda>k. 1000000) 2 = 22000000"
    unfolding numeral_2_eq_2 by simp
  have c3: "clock_at (\<lambda>k. 1000000) 3 = 33000000"
    unfolding numeral_3_eq_3 by simp
  have f: "\<forall>j<2. \<exists>e. fst (trySet (envs_up_at 2 j) ''eth-test'' cfg_v4_only) = Some e
                     \<and> \<not> is_panic e"
    by (simp add: envs_up_at_def trySet_env_down)
  have g: "\<forall>j<3. \<exists>e. fst (trySet ((\<lambda>k. env_down) j) ''eth-test'' cfg_v4_only) = Some e
                     \<and> \<not> is_panic e"
    by (simp add: trySet_env_down)
  have h: "\<forall>j<1. \<exists>e. fst (trySet (envs_no_ipv6_at 1 j) ''eth-test'' cfg_v4_only) = Some e
                     \<and> \<not> is_panic e"
    by (simp add: envs_no_ipv6_at_def trySet_env_down)
  have q: "fst (trySet (envs_no_ipv6_at 1 1) ''eth-test'' cfg_v4_only)
             = Some (Panic ''assignment to entry in nil map'')"
    by (simp add: envs_no_ipv6_at_def trySet_env_no_ipv6)
  have s: "fst (trySet (envs_up_at 2 2) ''eth-test'' cfg_v4_only) = None"
    by (simp add: envs_up_at_def trySet_env0_ok)
  have "SetDNS 1000000000 (envs_up_at 2) (\<lambda>k. 1000000) ''eth-test'' cfg_v4_only
          = (None, Suc 2, clock_at (\<lambda>k. 1000000) 2 + 1000000)"
    using SetDNS_retry [OF f, of "\<lambda>k. 1000000" 1000000000] s c2 by simp
  moreover have "SetDNS 25000000 (\<lambda>k. env_down) (\<lambda>k. 1000000) ''eth-test'' cfg_v4_only
          = (fst (trySet env_down ''eth-test'' cfg_v4_only), 3, clock_at (\<lambda>k. 1000000) 3)"
    using SetDNS_retry [OF g, of "\<lambda>k. 1000000" 25000000] c2 c3 by simp
  moreover have "SetDNS 1000000000 (envs_no_ipv6_at 1) (\<lambda>k. 1000000) ''eth-test'' cfg_v4_only
          = (Some (Panic ''assignment to entry in nil map''), Suc 1, 12000000)"
    using SetDNS_retry [OF h, of "\<lambda>k. 1000000" 1000000000] q by simp
  ultimately show ?thesis
    by (simp add: c2 c3 trySet_env_down)
qed

section \<open>Properties of nameserver discovery\<close>





lemma adapterAddresses_os_fec1:
  "adapterAddresses os_fec1 = (Inr [IpAdapterAddresses
        (Some (IpAdapterDnsServerAdapter
           (Inr (SockaddrInet6 [0xfe, 0xc1, 0, 0, 0, 0, 0, 0, 0, 0, 0, 0, 0, 0, 0, 1])) None))
        None], 1)"
  unfolding adapterAddresses_def
  by (subst adapterAddresses_loop.simps) (simp add: os_fec1_def)

lemma IP_String_fec1:
  "IP_String [0xfe, 0xc1, 0, 0, 0, 0, 0, 0, 0, 0, 0, 0, 0, 0, 0, 1] = ''fec1::1''"
  by (simp add: IP_String_def is_v4_in_v6_def zero_run_def appendHex_def digit_char_def)

text \<open>
  C3 at the address \<open>fec1::1\<close>, which lies in \<open>fec0::/10\<close>: its first byte is
  \<open>0xfe\<close> and the top two bits of its second byte \<open>0xc1\<close> are set. The loop compares
  the second byte with \<open>0xc0\<close>, so the address is kept and returned.
\<close>

theorem nameservers_keeps_fec1:
  "nameservers os_fec1 = [''[fec1::1]:53'']"
  by (simp add: nameservers_def adapterAddresses_os_fec1 copy16_def IP_String_fec1
      JoinHostPort_def)

section \<open>Properties of the resolver\<close>

lemma Resolve_sent:
  assumes "Pack env msg = Inr data"
      and "NewRequest env (endpoint r @ ''?dns='' @ EncodeToString data) = None"
  shows "requests (Resolve env r msg) = [(round_tripper_of r, doh_request r data)]"
  using assms
  by (simp add: Resolve_def Let_def round_tripper_of_def doh_request_def
           split: sum.splits)

lemma Resolve_answer:
  assumes "Pack env msg = Inr data"
      and "NewRequest env (endpoint r @ ''?dns='' @ EncodeToString data) = None"
      and "Do env (round_tripper_of r) (doh_request r data) = Inr resp"
      and "Body resp = Inr buf"
  shows "msg_out (Resolve env r msg)
           = (if StatusCode resp = 200 then Some (fst (Unpack env buf)) else None)"
    and "err_out (Resolve env r msg)
           = (if StatusCode resp = 200 then snd (Unpack env buf)
              else Some (Error (''wrong response from DOH server, got: ''
                     @ string_of_bytes buf @ '', status: '' @ Itoa (StatusCode resp))))"
  using assms
  by (simp_all add: Resolve_def Let_def round_tripper_of_def doh_request_def)

lemma Resolve_transport_failure:
  assumes "requests (Resolve env r msg) = [(c, req)]"
      and "Do env c req = Inl e"
  shows "Resolve env r msg =
           \<lparr>msg_out = None, err_out = Some (wrap ''could not perform request'' e),
            requests = [(c, req)],
            closes = (if isDoH3 r then [http3RoundTripper r] else []),
            resolver = r\<rparr>"
  using assms
  by (auto simp: Resolve_def Let_def split: sum.splits option.splits if_splits)

lemma Resolve_resolver: "resolver (Resolve env r msg) = r"
  by (simp add: Resolve_def Let_def split: sum.splits option.splits)

lemma Resolve_uses:
  "(c, req) \<in> set (requests (Resolve env r msg)) \<Longrightarrow> c = round_tripper_of r"
  by (auto simp: Resolve_def Let_def round_tripper_of_def
           split: sum.splits option.splits if_splits)

lemma EncodeToString_query:
  "EncodeToString query_www_example_com = ''AAABAAABAAAAAAAAA3d3dwdleGFtcGxlA2NvbQAAAQAB''"
  by (simp add: query_www_example_com_def encodeURL_def Let_def)

lemma Itoa_503: "Itoa 503 = ''503''"
  by (simp add: Itoa_def uitoa.simps [of 503] uitoa.simps [of 50] uitoa.simps [of 5]
      digit_char_def)

text \<open>
  C1, as the code has it. When the exchange of a DoH3 resolver fails, \<open>Resolve\<close>
  calls \<open>Close\<close> once on its HTTP/3 round-tripper and returns the error without a
  message. It does not replace the round-tripper: the resolver holds the same one
  afterwards, and whatever the next call sends goes through that same round-tripper.
\<close>

theorem doh3_failure_closes_round_tripper:
  assumes "isDoH3 r"
      and "requests (Resolve env r msg) = [(c, req)]"
      and "Do env c req = Inl e"
  shows "closes (Resolve env r msg) = [http3RoundTripper r]
       \<and> err_out (Resolve env r msg) = Some (wrap ''could not perform request'' e)
       \<and> msg_out (Resolve env r msg) = None
       \<and> resolver (Resolve env r msg) = r
       \<and> (\<forall>env' msg' c' req'.
            (c', req') \<in> set (requests (Resolve env' (resolver (Resolve env r msg)) msg'))
              \<longrightarrow> c' = Http3RoundTripper (http3RoundTripper r))"
proof -
  have "Resolve env r msg =
           \<lparr>msg_out = None, err_out = Some (wrap ''could not perform request'' e),
            requests = [(c, req)],
            closes = (if isDoH3 r then [http3RoundTripper r] else []),
            resolver = r\<rparr>"
    using assms(2,3) by (rule Resolve_transport_failure)
  moreover have "c' = Http3RoundTripper (http3RoundTripper r)"
    if "(c', req') \<in> set (requests (Resolve env' r msg'))"
    for env' :: "'b HTTPEnv" and msg' c' req'
    using Resolve_uses [OF that] assms(1) by (simp add: round_tripper_of_def)
  ultimately show ?thesis using assms(1) by simp
qed

text \<open>
  Witness for C1 as amended: a DoH3 resolver with round-tripper 2 whose exchange
  fails closes round-tripper 2, stays as it was, and sends its next request through
  round-tripper 2.
\<close>

theorem doh3_failure_closes_round_tripper_witness:
  "closes (Resolve env_broken r_doh3 query_www_example_com) = [2]
   \<and> resolver (Resolve env_broken r_doh3 query_www_example_com) = r_doh3
   \<and> requests (Resolve (env_status 200 [])
        (resolver (Resolve env_broken r_doh3 query_www_example_com)) query_www_example_com)
      = [(Http3RoundTripper 2, doh_request r_doh3 query_www_example_com)]"
proof -
  have a: "isDoH3 r_doh3" by (simp add: r_doh3_def)
  have b: "requests (Resolve env_broken r_doh3 query_www_example_com)
             = [(Http3RoundTripper 2, doh_request r_doh3 query_www_example_com)]"
    by (simp add: Resolve_def Let_def env_broken_def r_doh3_def doh_request_def)
  have c: "Do env_broken (Http3RoundTripper 2) (doh_request r_doh3 query_www_example_com)
             = Inl (Error ''timeout: no recent network activity'')"
    by (simp add: env_broken_def)
  have d: "requests (Resolve (env_status 200 []) r_doh3 query_www_example_com)
             = [(Http3RoundTripper 2, doh_request r_doh3 query_www_example_com)]"
    by (simp add: Resolve_def Let_def env_status_def r_doh3_def doh_request_def)
  have e: "http3RoundTripper r_doh3 = 2" by (simp add: r_doh3_def)
  from doh3_failure_closes_round_tripper [OF a b c] have
    "closes (Resolve env_broken r_doh3 query_www_example_com) = [http3RoundTripper r_doh3]"
    "resolver (Resolve env_broken r_doh3 query_www_example_com) = r_doh3"
    by blast+
  with d e show ?thesis by simp
qed

text \<open>
  Counterexample to C1 as stated: after a failing call of a DoH3 resolver, the
  round-tripper held by the resolver is the one it held before the call.
\<close>

theorem doh3_failure_same_round_tripper:
  "http3RoundTripper (resolver (Resolve env_broken r_doh3 query_www_example_com))
     = http3RoundTripper r_doh3
   \<and> err_out (Resolve env_broken r_doh3 query_www_example_com)
     = Some (Error ''could not perform request: timeout: no recent network activity'')"
  by (simp add: Resolve_def Let_def env_broken_def r_doh3_def)

text \<open>
  C7, as the code has it. A query that does not pack makes \<open>Resolve\<close> return the
  packing error without handing any request to the transport. For a query that packs
  to \<open>data\<close> and an endpoint for which the request can be built, \<open>Resolve\<close> hands
  exactly one request to the transport: a GET of the endpoint followed by \<open>?dns=\<close>
  and the unpadded URL-safe base64 of \<open>data\<close>, with the two
  \<open>application/dns-message\<close> headers. When the exchange yields a response whose
  body is read in full, status 200 returns the unpacked body as the answer, and any
  other status returns no message and an error carrying the body and the status.
\<close>

theorem Resolve_request_and_status:
  "(\<forall>e. Pack env msg = Inl e \<longrightarrow>
      requests (Resolve env r msg) = [] \<and> msg_out (Resolve env r msg) = None
      \<and> err_out (Resolve env r msg) = Some e)
   \<and> (\<forall>data. Pack env msg = Inr data
         \<and> NewRequest env (endpoint r @ ''?dns='' @ EncodeToString data) = None \<longrightarrow>
       requests (Resolve env r msg) =
           [(round_tripper_of r,
             \<lparr>Method = ''GET'', URL = endpoint r @ ''?dns='' @ EncodeToString data,
              Header = [''Content-Type'' \<mapsto> ''application/dns-message'',
                        ''Accept'' \<mapsto> ''application/dns-message'']\<rparr>)]
       \<and> (\<forall>resp buf.
             Do env (round_tripper_of r) (doh_request r data) = Inr resp
             \<and> Body resp = Inr buf \<longrightarrow>
               (StatusCode resp = 200 \<longrightarrow>
                  msg_out (Resolve env r msg) = Some (fst (Unpack env buf))
                  \<and> err_out (Resolve env r msg) = snd (Unpack env buf))
             \<and> (StatusCode resp \<noteq> 200 \<longrightarrow>
                  msg_out (Resolve env r msg) = None
                  \<and> err_out (Resolve env r msg) =
                      Some (Error (''wrong response from DOH server, got: ''
                        @ string_of_bytes buf @ '', status: '' @ Itoa (StatusCode resp))))))"
proof (rule conjI)
  show "\<forall>e. Pack env msg = Inl e \<longrightarrow>
      requests (Resolve env r msg) = [] \<and> msg_out (Resolve env r msg) = None
      \<and> err_out (Resolve env r msg) = Some e"
    by (simp add: Resolve_def)
next
  show "\<forall>data. Pack env msg = Inr data
         \<and> NewRequest env (endpoint r @ ''?dns='' @ EncodeToString data) = None \<longrightarrow>
       requests (Resolve env r msg) =
           [(round_tripper_of r,
             \<lparr>Method = ''GET'', URL = endpoint r @ ''?dns='' @ EncodeToString data,
              Header = [''Content-Type'' \<mapsto> ''application/dns-message'',
                        ''Accept'' \<mapsto> ''application/dns-message'']\<rparr>)]
       \<and> (\<forall>resp buf.
             Do env (round_tripper_of r) (doh_request r data) = Inr resp
             \<and> Body resp = Inr buf \<longrightarrow>
               (StatusCode resp = 200 \<longrightarrow>
                  msg_out (Resolve env r msg) = Some (fst (Unpack env buf))
                  \<and> err_out (Resolve env r msg) = snd (Unpack env buf))
             \<and> (StatusCode resp \<noteq> 200 \<longrightarrow>
                  msg_out (Resolve env r msg) = None
                  \<and> err_out (Resolve env r msg) =
                      Some (Error (''wrong response from DOH server, got: ''
                        @ string_of_bytes buf @ '', status: '' @ Itoa (StatusCode resp)))))"
  proof (intro allI impI)
    fix data
    assume a: "Pack env msg = Inr data
           \<and> NewRequest env (endpoint r @ ''?dns='' @ EncodeToString data) = None"
    then have p: "Pack env msg = Inr data"
      and n: "NewRequest env (endpoint r @ ''?dns='' @ EncodeToString data) = None"
      by simp_all
    show "requests (Resolve env r msg) =
           [(round_tripper_of r,
             \<lparr>Method = ''GET'', URL = endpoint r @ ''?dns='' @ EncodeToString data,
              Header = [''Content-Type'' \<mapsto> ''application/dns-message'',
                        ''Accept'' \<mapsto> ''application/dns-message'']\<rparr>)]
       \<and> (\<forall>resp buf.
             Do env (round_tripper_of r) (doh_request r data) = Inr resp
             \<and> Body resp = Inr buf \<longrightarrow>
               (StatusCode resp = 200 \<longrightarrow>
                  msg_out (Resolve env r msg) = Some (fst (Unpack env buf))
                  \<and> err_out (Resolve env r msg) = snd (Unpack env buf))
             \<and> (StatusCode resp \<noteq> 200 \<longrightarrow>
                  msg_out (Resolve env r msg) = None
                  \<and> err_out (Resolve env r msg) =
                      Some (Error (''wrong response from DOH server, got: ''
                        @ string_of_bytes buf @ '', status: '' @ Itoa (StatusCode resp)))))"
      using Resolve_sent [OF p n] Resolve_answer [OF p n]
      by (simp add: doh_request_def)
  qed
qed

text \<open>
  Witness for C7 as amended: the query for \<open>www.example.com\<close> of RFC 8484 goes out
  as the GET that the RFC shows; a server answering 200 has its body returned, a
  server answering 503 with body \<open>busy\<close> gives the error text and no message.
\<close>

theorem Resolve_request_and_status_witness:
  "requests (Resolve (env_status 200 [0, 0, 0x81, 0x80]) r_doh query_www_example_com) =
     [(HttpTransport 1,
       \<lparr>Method = ''GET'',
        URL = ''https://dnsserver.example.net/dns-query?dns=AAABAAABAAAAAAAAA3d3dwdleGFtcGxlA2NvbQAAAQAB'',
        Header = [''Content-Type'' \<mapsto> ''application/dns-message'',
                  ''Accept'' \<mapsto> ''application/dns-message'']\<rparr>)]
   \<and> msg_out (Resolve (env_status 200 [0, 0, 0x81, 0x80]) r_doh query_www_example_com)
       = Some [0, 0, 0x81, 0x80]
   \<and> err_out (Resolve (env_status 200 [0, 0, 0x81, 0x80]) r_doh query_www_example_com) = None
   \<and> msg_out (Resolve (env_status 503 [0x62, 0x75, 0x73, 0x79]) r_doh query_www_example_com)
       = None
   \<and> err_out (Resolve (env_status 503 [0x62, 0x75, 0x73, 0x79]) r_doh query_www_example_com)
       = Some (Error ''wrong response from DOH server, got: busy, status: 503'')"
proof -
  have p: "Pack (env_status c b) query_www_example_com = Inr query_www_example_com" for c b
    by (simp add: env_status_def)
  have n: "NewRequest (env_status c b)
             (endpoint r_doh @ ''?dns='' @ EncodeToString query_www_example_com) = None" for c b
    by (simp add: env_status_def)
  have d: "Do (env_status c b) (round_tripper_of r_doh)
             (doh_request r_doh query_www_example_com)
             = Inr \<lparr>StatusCode = c, Body = Inr b\<rparr>" for c b
    by (simp add: env_status_def)
  have s: "string_of_bytes [0x62, 0x75, 0x73, 0x79] = ''busy''"
    by (simp add: string_of_bytes_def char_of_def bit_0)
  show ?thesis
    using Resolve_request_and_status
            [of "env_status 200 [0, 0, 0x81, 0x80]" query_www_example_com r_doh]
          Resolve_request_and_status
            [of "env_status 503 [0x62, 0x75, 0x73, 0x79]" query_www_example_com r_doh]
      p [of 200 "[0, 0, 0x81, 0x80]"] p [of 503 "[0x62, 0x75, 0x73, 0x79]"]
      n [of 200 "[0, 0, 0x81, 0x80]"] n [of 503 "[0x62, 0x75, 0x73, 0x79]"]
      d [of 200 "[0, 0, 0x81, 0x80]"] d [of 503 "[0x62, 0x75, 0x73, 0x79]"]
    by (simp add: EncodeToString_query Itoa_503 s round_tripper_of_def r_doh_def env_status_def)
qed

text \<open>
  Counterexample to C7 as stated: the query for the name \<open>www.example.com\<close>, written
  without its final dot, does not pack; \<open>Resolve\<close> returns the packing error and
  issues no request.
\<close>

theorem unpackable_query_sends_no_request:
  "requests (Resolve env_names r_doh ''www.example.com'') = []
   \<and> err_out (Resolve env_names r_doh ''www.example.com'')
       = Some (Error ''dns: domain must be fully qualified'')"
  by (simp add: Resolve_def env_names_def)

end
